theory Spec2Isabelle
  imports Complex_Main "HOL-Library.Word"
begin

section \<open>The PODIOWriter module of Allpix Squared\<close>

text \<open>
  The development follows \<^verbatim>\<open>src/modules/PODIOWriter/PODIOWriterModule.cpp\<close>: the
  constructor, \<^verbatim>\<open>initialize\<close>, \<^verbatim>\<open>run\<close> and \<^verbatim>\<open>finalize\<close>. The module object is a
  record that every operation takes and returns; a C++ exception is the left summand of
  the result. The classes of the framework the module calls (configuration, geometry
  manager, detector, units, LCIO and PODIO writers) are not part of the two files; they
  appear here as plain data, or as a field of the environment where the module only calls
  a function of theirs.
\<close>

subsection \<open>Values written to a stream\<close>

text \<open>
  One operand of \<^verbatim>\<open>operator<<\<close>. A \<^verbatim>\<open>double\<close> is kept as the real number it
  stands for: the decimal text that the stream prints for it is not modelled.
\<close>

datatype stream_item =
    Str string
  | Dbl real
  | UInt nat
  | SInt int
  | Endl

text \<open>
  The geometry file is XML text. An element is kept as its tag, its attributes in the
  order they are written (the value being the operand streamed between the quotes) and
  its children; white space between attributes is dropped.
\<close>

datatype xml_node =
    ProcInstr string "(string \<times> stream_item) list"
  | Comment "stream_item list"
  | Element string "(string \<times> stream_item) list" "xml_node list"

fun attrs :: "xml_node \<Rightarrow> (string \<times> stream_item) list" where
  "attrs (ProcInstr t as) = as"
| "attrs (Comment ts) = []"
| "attrs (Element t as cs) = as"

fun children :: "xml_node \<Rightarrow> xml_node list" where
  "children (ProcInstr t as) = []"
| "children (Comment ts) = []"
| "children (Element t as cs) = cs"

fun is_element :: "string \<Rightarrow> xml_node \<Rightarrow> bool" where
  "is_element t (ProcInstr t' as) = False"
| "is_element t (Comment ts) = False"
| "is_element t (Element t' as cs) = (t = t')"

definition attr :: "xml_node \<Rightarrow> string \<Rightarrow> stream_item option" where
  "attr n k = map_of (attrs n) k"

definition elements :: "string \<Rightarrow> xml_node list \<Rightarrow> xml_node list" where
  "elements t ns = filter (is_element t) ns"

subsection \<open>Errors\<close>

text \<open>
  \<^verbatim>\<open>ModuleError\<close> is the exception \<^verbatim>\<open>finalize\<close> throws. The next two are what
  \<^verbatim>\<open>Configuration::get\<close> raises for a key that is absent or holds a value of another
  type. \<^verbatim>\<open>WriteError\<close>, with the path of the file, is the failure of the event writer
  to write a record; the module does not catch it.
\<close>

datatype module_error =
    ModuleError string
  | MissingKeyError string
  | InvalidValueError string
  | WriteError string

subsection \<open>Configuration\<close>

datatype cfg_value = CfgInt int | CfgString string | CfgBool bool

type_synonym Configuration = "(string \<times> cfg_value) list"

definition has :: "Configuration \<Rightarrow> string \<Rightarrow> bool" where
  "has config key = (map_of config key \<noteq> None)"

definition setDefault :: "Configuration \<Rightarrow> string \<Rightarrow> cfg_value \<Rightarrow> Configuration" where
  "setDefault config key val = (if has config key then config else config @ [(key, val)])"

definition get_int :: "Configuration \<Rightarrow> string \<Rightarrow> module_error + int" where
  "get_int config key =
     (case map_of config key of
        None \<Rightarrow> Inl (MissingKeyError key)
      | Some (CfgInt i) \<Rightarrow> Inr i
      | Some _ \<Rightarrow> Inl (InvalidValueError key))"

definition get_string :: "Configuration \<Rightarrow> string \<Rightarrow> module_error + string" where
  "get_string config key =
     (case map_of config key of
        None \<Rightarrow> Inl (MissingKeyError key)
      | Some (CfgString s) \<Rightarrow> Inr s
      | Some _ \<Rightarrow> Inl (InvalidValueError key))"

definition get_bool :: "Configuration \<Rightarrow> string \<Rightarrow> module_error + bool" where
  "get_bool config key =
     (case map_of config key of
        None \<Rightarrow> Inl (MissingKeyError key)
      | Some (CfgBool b) \<Rightarrow> Inr b
      | Some _ \<Rightarrow> Inl (InvalidValueError key))"

subsection \<open>Geometry: detectors, their models, the magnetic field\<close>

datatype XYZVector = XYZVector (vx: real) (vy: real) (vz: real)

datatype XYVector = XYVector (px: real) (py: real)

datatype PixelCount = PixelCount (nx: nat) (ny: nat)

datatype Rotation3D = Rotation3D real real real real real real real real real

record DetectorModel =
  getNPixels :: PixelCount
  getPixelSize :: XYVector
  getSize :: XYZVector
  getSensorSize :: XYZVector

record Detector =
  getName :: string
  getType :: string
  getPosition :: XYZVector
  getOrientation :: Rotation3D
  getModel :: DetectorModel

datatype MagneticFieldType = NONE | CONSTANT | CUSTOM

record GeometryManager =
  getDetectors :: "Detector list"
  getMagneticFieldType :: MagneticFieldType
  getMagneticField :: "XYZVector \<Rightarrow> XYZVector"

subsection \<open>What the module calls but does not define\<close>

text \<open>
  \<^verbatim>\<open>Units::convert\<close>, \<^verbatim>\<open>getRotationAnglesFromMatrix\<close> (its result is indexed 0, 1, 2:
  a triple), \<^verbatim>\<open>Module::createOutputFile\<close>, whether the stream opened on a path is
  \<^verbatim>\<open>good()\<close>, whether the event file at a path accepts a record, and the constant
  \<^verbatim>\<open>eutelescope::gTrackerDataEncoding\<close>.
\<close>

record environment =
  convert :: "real \<Rightarrow> string \<Rightarrow> real"
  getRotationAnglesFromMatrix :: "Rotation3D \<Rightarrow> real \<times> real \<times> real"
  createOutputFile :: "string \<Rightarrow> string \<Rightarrow> module_error + string"
  stream_good :: "string \<Rightarrow> bool"
  write_good :: "string \<Rightarrow> bool"
  gTrackerDataEncoding :: string

subsection \<open>Events and pixel hits\<close>

record PixelHit =
  pixel_x :: int
  pixel_y :: int

record PixelHitMessage =
  msg_detector :: string
  msg_data :: "PixelHit list"

text \<open>
  An event carries its number (a 64-bit unsigned integer) and the messages dispatched to
  the module; \<^verbatim>\<open>fetchMultiMessage<PixelHitMessage>\<close> returns the latter.
\<close>

record Event =
  number :: "64 word"
  messages :: "PixelHitMessage list"

definition fetchMultiMessage :: "Event \<Rightarrow> PixelHitMessage list" where
  "fetchMultiMessage event = messages event"

subsection \<open>Output sinks\<close>

text \<open>
  Modelled from the spec: the element of a hit collection. The encoder class
  (\<^verbatim>\<open>CellIDEncoder\<close>) and the collection classes are not under src/, and no line of
  the module calls the encoder or appends to a collection; an encoded hit is kept as the
  triple (detector-ID, pixel-x, pixel-y) that the cell code packs.
\<close>

type_synonym encoded_hit = "nat \<times> int \<times> int"

type_synonym collection = "encoded_hit list"

record LCRunHeader =
  run_runNumber :: int
  run_detectorName :: string

record LCWriter =
  lc_file :: string
  lc_run_headers :: "LCRunHeader list"
  lc_closed :: bool

record LCEvent =
  evt_runNumber :: int
  evt_eventNumber :: "32 word"
  evt_parameters :: "(string \<times> int) list"
  evt_collections :: "(string \<times> collection) list"

text \<open>
  Modelled from the spec: the PODIO event store and its ROOT writer, which are not under
  src/. The store holds named collections; \<^verbatim>\<open>writeEvent\<close> appends to the file one
  record with the collections registered for writing, as the store holds them, and fails
  when the file does not accept the record (a write failure is fatal);
  \<^verbatim>\<open>clear\<close> empties every collection of the store.
\<close>

type_synonym EventStore = "(string \<times> collection) list"

record ROOTWriter =
  root_file :: string
  registered :: "string list"
  written :: "(string \<times> collection) list list"

definition writeEvent ::
  "environment \<Rightarrow> ROOTWriter \<Rightarrow> EventStore \<Rightarrow> module_error + ROOTWriter" where
  "writeEvent env w store =
     (if write_good env (root_file w) then
        Inr (w\<lparr>written := written w @ [filter (\<lambda>c. fst c \<in> set (registered w)) store]\<rparr>)
      else Inl (WriteError (root_file w)))"

definition clear :: "EventStore \<Rightarrow> EventStore" where
  "clear store = map (\<lambda>c. (fst c, [])) store"

datatype log_level = STATUS | WARNING

type_synonym log_entry = "log_level \<times> stream_item list"

subsection \<open>The module object\<close>

text \<open>
  The members the two files use. The header declares only the messenger, the geometry
  manager, the event store and the writer; the others are used by the implementation
  under the names kept here with a prime after the final underscore, and no operation is
  assumed to have set them: each theorem takes the state as it is given. The smart
  pointers are taken as set (the framework calls \<^verbatim>\<open>initialize\<close> first). The last
  two fields are not members: the log, and the files written, by path.
\<close>

record module_state =
  config_' :: Configuration
  pixel_type_' :: int
  detector_name_' :: string
  dump_mc_truth_' :: bool
  geometry_file_name_' :: string
  lcio_file_name_' :: string
  lcWriter_' :: LCWriter
  event_store_' :: EventStore
  writer_' :: ROOTWriter
  collection_names_vector_' :: "string list"
  detector_names_to_id_' :: "string \<rightharpoonup> nat"
  write_cnt_' :: int
  log_entries :: "log_entry list"
  files :: "string \<rightharpoonup> xml_node list"

subsection \<open>The constructor\<close>

text \<open>
  It reads three required keys, computes whether each of the two collection-naming keys
  is present, fetches the detectors, and ends: the two flags and the detector list are
  not used. (\<^verbatim>\<open>allow_multithreading\<close> only sets a flag of the framework.)
\<close>

definition PODIOWriterModule ::
  "Configuration \<Rightarrow> GeometryManager \<Rightarrow> module_state \<Rightarrow> module_error + module_state" where
  "PODIOWriterModule config geo_mgr st =
     (let config1 = setDefault config ''file_name'' (CfgString ''output.edm4allpix.root'') in
      case get_int config1 ''pixel_type'' of
        Inl e \<Rightarrow> Inl e
      | Inr pixel_type \<Rightarrow>
      (case get_string config1 ''detector_name'' of
        Inl e \<Rightarrow> Inl e
      | Inr detector_name \<Rightarrow>
      (case get_bool config1 ''dump_mc_truth'' of
        Inl e \<Rightarrow> Inl e
      | Inr dump_mc_truth \<Rightarrow>
         (let has_short_config = has config1 ''output_collection_name'';
              has_long_config = has config1 ''detector_assignment'';
              detectors = getDetectors geo_mgr
          in Inr (st\<lparr>config_' := config1,
                      pixel_type_' := pixel_type,
                      detector_name_' := detector_name,
                      dump_mc_truth_' := dump_mc_truth\<rparr>)))))"

subsection \<open>initialize\<close>

definition initialize :: "environment \<Rightarrow> module_state \<Rightarrow> module_error + module_state" where
  "initialize env st =
     (case get_string (config_' st) ''geometry_file'' of
        Inl e \<Rightarrow> Inl e
      | Inr geometry_file \<Rightarrow>
      (case createOutputFile env geometry_file ''xml'' of
        Inl e \<Rightarrow> Inl e
      | Inr geometry_file_name \<Rightarrow>
      (case get_string (config_' st) ''file_name'' of
        Inl e \<Rightarrow> Inl e
      | Inr file_name \<Rightarrow>
      (case createOutputFile env file_name ''slcio'' of
        Inl e \<Rightarrow> Inl e
      | Inr lcio_file_name \<Rightarrow>
         (let run = \<lparr>run_runNumber = 1, run_detectorName = detector_name_' st\<rparr> in
          Inr (st\<lparr>geometry_file_name_' := geometry_file_name,
                   lcio_file_name_' := lcio_file_name,
                   lcWriter_' := \<lparr>lc_file = lcio_file_name, lc_run_headers = [run],
                                 lc_closed = False\<rparr>,
                   event_store_' := [],
                   writer_' := \<lparr>root_file = ''output.root'', registered = [],
                               written = []\<rparr>\<rparr>))))))"

subsection \<open>run\<close>

text \<open>
  The event object, the per-channel collections with their encoders and the four
  Monte-Carlo pointers are locals; the function ends with \<^verbatim>\<open>writer_->writeEvent()\<close>
  and \<^verbatim>\<open>event_store_->clear()\<close>. It has no \<^verbatim>\<open>throw\<close> and no \<^verbatim>\<open>try\<close>: a failure
  of the writer leaves the function before the store is cleared.
\<close>

definition run :: "environment \<Rightarrow> module_state \<Rightarrow> Event \<Rightarrow> module_error + module_state" where
  "run env st event =
     (let pixel_messages = fetchMultiMessage event;
          evt = \<lparr>evt_runNumber = 1,
                 evt_eventNumber = ucast (number event),
                 evt_parameters = [(''EventType'', 2)],
                 evt_collections = []\<rparr>;
          output_col_vec = replicate (length (collection_names_vector_' st)) ([] :: collection);
          output_col_encoder_vec = map (\<lambda>c. gTrackerDataEncoding env) output_col_vec;
          mc_cluster_vec = (None :: collection option);
          mc_cluster_raw_vec = (None :: collection option);
          mc_hit_vec = (None :: collection option);
          mc_track_vec = (None :: collection option)
      in case writeEvent env (writer_' st) (event_store_' st) of
           Inl e \<Rightarrow> Inl e
         | Inr w \<Rightarrow> Inr (st\<lparr>writer_' := w, event_store_' := clear (event_store_' st)\<rparr>))"

subsection \<open>finalize\<close>

text \<open>
  \<^verbatim>\<open>detector_names_to_id_[name]\<close>: the subscript of a map returns the value stored
  under the key and, when the key is absent, stores the value-initialised 0 under it
  first.
\<close>

definition registry_index :: "(string \<rightharpoonup> nat) \<Rightarrow> string \<Rightarrow> nat \<times> (string \<rightharpoonup> nat)" where
  "registry_index reg name =
     (case reg name of Some i \<Rightarrow> (i, reg) | None \<Rightarrow> (0, reg(name \<mapsto> 0)))"

definition write_bfield :: "environment \<Rightarrow> GeometryManager \<Rightarrow> xml_node \<times> log_entry list" where
  "write_bfield env geo_mgr =
     (if getMagneticFieldType geo_mgr = CONSTANT then
        (let b_field = getMagneticField geo_mgr (XYZVector 0 0 0) in
         (Element ''BField''
            [(''type'', Str ''ConstantBField''),
             (''x'', Dbl (convert env (vx b_field) ''T'')),
             (''y'', Dbl (convert env (vy b_field) ''T'')),
             (''z'', Dbl (convert env (vz b_field) ''T''))] [], []))
      else if getMagneticFieldType geo_mgr = NONE then
        (Element ''BField''
           [(''type'', Str ''ConstantBField''),
            (''x'', Str ''0.0''), (''y'', Str ''0.0''), (''z'', Str ''0.0'')] [], [])
      else
        (Element ''BField''
           [(''type'', Str ''ConstantBField''),
            (''x'', Str ''0.0''), (''y'', Str ''0.0''), (''z'', Str ''0.0'')] [],
         [(WARNING,
           [Str ''Field type not handled by GEAR geometry. Writing null magnetic field instead.''])]))"

definition write_ladder :: "environment \<Rightarrow> nat \<Rightarrow> Detector \<Rightarrow> xml_node" where
  "write_ladder env ident detector =
     (let position = getPosition detector;
          model = getModel detector;
          total_size = getSize model;
          angles = getRotationAnglesFromMatrix env (getOrientation detector)
      in Element ''ladder''
           [(''ID'', UInt ident),
            (''positionX'', Dbl (convert env (vx position) ''mm'')),
            (''positionY'', Dbl (convert env (vy position) ''mm'')),
            (''positionZ'', Dbl (convert env (vz position) ''mm'')),
            (''rotationZY'', Dbl (convert env (- fst angles) ''deg'')),
            (''rotationZX'', Dbl (convert env (- fst (snd angles)) ''deg'')),
            (''rotationXY'', Dbl (convert env (- snd (snd angles)) ''deg'')),
            (''sizeX'', Dbl (convert env (vx total_size) ''mm'')),
            (''sizeY'', Dbl (convert env (vy total_size) ''mm'')),
            (''thickness'', Dbl (convert env (vz total_size) ''mm'')),
            (''radLength'', Str ''93.65'')] [])"

definition write_sensitive :: "environment \<Rightarrow> nat \<Rightarrow> Detector \<Rightarrow> xml_node" where
  "write_sensitive env ident detector =
     (let position = getPosition detector;
          model = getModel detector;
          npixels = getNPixels model;
          pitch = getPixelSize model;
          sensitive_size = getSensorSize model
      in Element ''sensitive''
           [(''ID'', UInt ident),
            (''positionX'', Dbl (convert env (vx position) ''mm'')),
            (''positionY'', Dbl (convert env (vy position) ''mm'')),
            (''positionZ'', Dbl (convert env (vz position) ''mm'')),
            (''sizeX'', Dbl (convert env (real (nx npixels) * px pitch) ''mm'')),
            (''sizeY'', Dbl (convert env (real (ny npixels) * py pitch) ''mm'')),
            (''thickness'', Dbl (convert env (vz sensitive_size) ''mm'')),
            (''npixelX'', UInt (nx npixels)),
            (''npixelY'', UInt (ny npixels)),
            (''pitchX'', Dbl (convert env (px pitch) ''mm'')),
            (''pitchY'', Dbl (convert env (py pitch) ''mm'')),
            (''resolution'', Dbl (convert env (px pitch / sqrt 12) ''mm'')),
            (''rotation1'', Str ''1.0''),
            (''rotation2'', Str ''0.0''),
            (''rotation3'', Str ''0.0''),
            (''rotation4'', Str ''1.0''),
            (''radLength'', Str ''93.65'')] [])"

text \<open>The loop over the detectors; the registry is threaded through the two subscripts.\<close>

fun write_layers ::
  "environment \<Rightarrow> (string \<rightharpoonup> nat) \<Rightarrow> Detector list \<Rightarrow> xml_node list \<times> (string \<rightharpoonup> nat)" where
  "write_layers env reg [] = ([], reg)"
| "write_layers env reg (detector # detectors) =
     (let (id1, reg1) = registry_index reg (getName detector);
          (id2, reg2) = registry_index reg1 (getName detector);
          (rest, reg3) = write_layers env reg2 detectors
      in (Comment [Str ''Allpix Squared Detector: '', Str (getName detector),
                   Str '' - type: '', Str (getType detector)]
          # Element ''layer'' [] [write_ladder env id1 detector, write_sensitive env id2 detector]
          # rest,
          reg3))"

definition dquote :: char where
  "dquote = CHR 0x22"

definition gear_document ::
  "string \<Rightarrow> nat \<Rightarrow> xml_node \<Rightarrow> xml_node list \<Rightarrow> xml_node list" where
  "gear_document detector_name n bfield layers =
     [ProcInstr ''xml'' [(''version'', Str ''1.0''), (''encoding'', Str ''utf-8'')],
      Comment [Str (''?xml-stylesheet type='' @ [dquote] @ ''text/xsl'' @ [dquote] @ '' href=''
                    @ [dquote] @ ''https://cern.ch/allpix-squared/'' @ [dquote] @ ''?'')],
      Element ''gear'' []
        [Element ''global'' [(''detectorName'', Str detector_name)] [],
         bfield,
         Element ''detectors'' []
           [Element ''detector''
              [(''name'', Str ''SiPlanes''), (''geartype'', Str ''SiPlanesParameters'')]
              [Element ''siplanesType'' [(''type'', Str ''TelescopeWithoutDUT'')] [],
               Element ''siplanesNumber'' [(''number'', UInt n)] [],
               Element ''siplanesID'' [(''ID'', SInt 0)] [],
               Element ''layers'' [] layers]]]]"

definition finalize ::
  "environment \<Rightarrow> GeometryManager \<Rightarrow> module_state \<Rightarrow> module_error + module_state" where
  "finalize env geo_mgr st =
     (let st1 = st\<lparr>lcWriter_' := (lcWriter_' st)\<lparr>lc_closed := True\<rparr>,
                  log_entries := log_entries st @
                    [(STATUS, [Str ''Wrote '', SInt (write_cnt_' st), Str '' events to file:'',
                               Endl, Str (lcio_file_name_' st)])]\<rparr>
      in if geometry_file_name_' st \<noteq> [] then
           if \<not> stream_good env (geometry_file_name_' st) then
             Inl (ModuleError ''Cannot write to GEAR geometry file'')
           else
             (let detectors = getDetectors geo_mgr;
                  (bfield, warnings) = write_bfield env geo_mgr;
                  (layers, reg) = write_layers env (detector_names_to_id_' st) detectors
              in Inr (st1\<lparr>detector_names_to_id_' := reg,
                          log_entries := log_entries st1 @ warnings @
                            [(STATUS, [Str ''Wrote GEAR geometry to file:'', Endl,
                                       Str (geometry_file_name_' st)])],
                          files := (files st)(geometry_file_name_' st \<mapsto>
                                  gear_document (detector_name_' st) (length detectors)
                                    bfield layers)\<rparr>))
         else Inr st1)"

subsection \<open>Reading the geometry document back\<close>

text \<open>
  The layer elements of the document stored under a path, in the order written, and the
  ladder and the sensitive element of a layer.
\<close>

definition child :: "string \<Rightarrow> xml_node \<Rightarrow> xml_node" where
  "child t n = hd (elements t (children n) @ [Comment []])"

definition layers_of :: "xml_node list \<Rightarrow> xml_node list" where
  "layers_of doc =
     concat (map (\<lambda>g. elements ''layer''
                 (children (child ''layers'' (child ''detector'' (child ''detectors'' g)))))
               (elements ''gear'' doc))"

definition bfield_of :: "xml_node list \<Rightarrow> xml_node list" where
  "bfield_of doc = concat (map (\<lambda>g. elements ''BField'' (children g)) (elements ''gear'' doc))"

definition geometry_written :: "module_error + module_state \<Rightarrow> string \<Rightarrow> xml_node list" where
  "geometry_written res path =
     (case res of
        Inl e \<Rightarrow> []
      | Inr st' \<Rightarrow> (case files st' path of None \<Rightarrow> [] | Some doc \<Rightarrow> doc))"

definition ladder_of :: "xml_node \<Rightarrow> xml_node" where
  "ladder_of layer = child ''ladder'' layer"

definition sensitive_of :: "xml_node \<Rightarrow> xml_node" where
  "sensitive_of layer = child ''sensitive'' layer"

text \<open>The event records in the output file after an operation, none after an error.\<close>

definition records_written :: "module_error + module_state \<Rightarrow> (string \<times> collection) list list" where
  "records_written res = (case res of Inl e \<Rightarrow> [] | Inr st' \<Rightarrow> written (writer_' st'))"

text \<open>The log after an operation, nothing after an error.\<close>

definition log_written :: "module_error + module_state \<Rightarrow> log_entry list" where
  "log_written res = (case res of Inl e \<Rightarrow> [] | Inr st' \<Rightarrow> log_entries st')"

text \<open>Running one operation after another; an error ends the sequence.\<close>

definition then_do ::
  "module_error + module_state \<Rightarrow> (module_state \<Rightarrow> module_error + module_state)
     \<Rightarrow> module_error + module_state" where
  "then_do res f = (case res of Inl e \<Rightarrow> Inl e | Inr st \<Rightarrow> f st)"

subsection \<open>Concrete inputs\<close>

text \<open>
  The set-up of the end-to-end example: two detectors at z = 0 and z = 50 mm with
  identity rotation, 100 by 100 pixels of pitch 0.05 mm. The sensor is given a size
  (5.2 mm) that differs from the extent of its pixel grid (5 mm).
\<close>

definition ex_env :: environment where
  "ex_env = \<lparr>convert = (\<lambda>v u. v),
             getRotationAnglesFromMatrix = (\<lambda>r. (0, 0, 0)),
             createOutputFile = (\<lambda>n e. Inr (n @ ''.'' @ e)),
             stream_good = (\<lambda>p. True),
             write_good = (\<lambda>p. True),
             gTrackerDataEncoding = ''sensorID:7,sparsePixelType:5''\<rparr>"

definition ex_model :: DetectorModel where
  "ex_model = \<lparr>getNPixels = PixelCount 100 100,
               getPixelSize = XYVector (5 / 100) (5 / 100),
               getSize = XYZVector 6 6 1,
               getSensorSize = XYZVector (52 / 10) (52 / 10) (3 / 10)\<rparr>"

definition ex_detector :: "string \<Rightarrow> real \<Rightarrow> Detector" where
  "ex_detector name z =
     \<lparr>getName = name, getType = ''test'', getPosition = XYZVector 0 0 z,
      getOrientation = Rotation3D 1 0 0 0 1 0 0 0 1, getModel = ex_model\<rparr>"

definition ex_geo :: "MagneticFieldType \<Rightarrow> GeometryManager" where
  "ex_geo field_type =
     \<lparr>getDetectors = [ex_detector ''det0'' 0, ex_detector ''det1'' 50],
      getMagneticFieldType = field_type,
      getMagneticField = (\<lambda>p. XYZVector 0 0 (4 / 1000))\<rparr>"

text \<open>A module object whose members are all default-constructed.\<close>

definition ex_initial :: module_state where
  "ex_initial =
     \<lparr>config_' = [], pixel_type_' = 0, detector_name_' = [], dump_mc_truth_' = False,
      geometry_file_name_' = [], lcio_file_name_' = [],
      lcWriter_' = \<lparr>lc_file = [], lc_run_headers = [], lc_closed = False\<rparr>,
      event_store_' = [],
      writer_' = \<lparr>root_file = [], registered = [], written = []\<rparr>,
      collection_names_vector_' = [], detector_names_to_id_' = Map.empty,
      write_cnt_' = 0, log_entries = [], files = Map.empty\<rparr>"

text \<open>
  A module object after initialisation that moreover has one output channel and a
  registry knowing both detectors, with the Monte-Carlo flag set.
\<close>

definition ex_ready :: module_state where
  "ex_ready =
     ex_initial\<lparr>detector_name_' := ''telescope'', dump_mc_truth_' := True,
                geometry_file_name_' := ''geometry.xml'',
                lcio_file_name_' := ''output.slcio'',
                lcWriter_' := \<lparr>lc_file = ''output.slcio'',
                               lc_run_headers = [\<lparr>run_runNumber = 1,
                                                  run_detectorName = ''telescope''\<rparr>],
                               lc_closed = False\<rparr>,
                writer_' := \<lparr>root_file = ''output.root'', registered = [], written = []\<rparr>,
                collection_names_vector_' := [''zsdata''],
                detector_names_to_id_' := [''det0'' \<mapsto> 0, ''det1'' \<mapsto> 1]\<rparr>"

definition ex_config :: "(string \<times> cfg_value) list \<Rightarrow> Configuration" where
  "ex_config naming =
     [(''pixel_type'', CfgInt 2), (''detector_name'', CfgString ''telescope''),
      (''dump_mc_truth'', CfgBool True), (''geometry_file'', CfgString ''geometry'')]
     @ naming"

definition ex_both :: "(string \<times> cfg_value) list" where
  "ex_both = [(''output_collection_name'', CfgString ''zsdata''),
              (''detector_assignment'', CfgString ''det0 zsdata0'')]"

definition ex_event :: "string \<Rightarrow> Event" where
  "ex_event detector =
     \<lparr>number = 1,
      messages = [\<lparr>msg_detector = detector,
                   msg_data = [\<lparr>pixel_x = 10, pixel_y = 20\<rparr>]\<rparr>]\<rparr>"

section \<open>Properties\<close>

subsection \<open>What each operation leaves behind\<close>

lemma run_result:
  "run env st event =
     (if write_good env (root_file (writer_' st)) then
        Inr (st\<lparr>writer_' := (writer_' st)\<lparr>written := written (writer_' st) @
                       [filter (\<lambda>c. fst c \<in> set (registered (writer_' st))) (event_store_' st)]\<rparr>,
                event_store_' := clear (event_store_' st)\<rparr>)
      else Inl (WriteError (root_file (writer_' st))))"
  by (simp add: run_def writeEvent_def)

text \<open>The result of run does not depend on the hit batch of the event.\<close>

lemma run_ignores_hits: "run env st (event\<lparr>messages := ms\<rparr>) = run env st event"
  by (simp add: run_result)

lemma run_registry:
  "run env st event = Inr st' \<Longrightarrow> detector_names_to_id_' st' = detector_names_to_id_' st"
  by (auto simp: run_result split: if_splits)

lemma constructor_registry:
  "PODIOWriterModule config geo st = Inr st' \<Longrightarrow>
   detector_names_to_id_' st' = detector_names_to_id_' st
   \<and> collection_names_vector_' st' = collection_names_vector_' st"
  by (auto simp: PODIOWriterModule_def Let_def split: sum.splits)

lemma initialize_registry:
  "initialize env st = Inr st' \<Longrightarrow>
   detector_names_to_id_' st' = detector_names_to_id_' st
   \<and> collection_names_vector_' st' = collection_names_vector_' st"
  by (auto simp: initialize_def Let_def split: sum.splits)

lemma finalize_ok:
  assumes "geometry_file_name_' st \<noteq> []" "stream_good env (geometry_file_name_' st)"
  shows "\<not> isl (finalize env geo st)"
  using assms by (simp add: finalize_def Let_def case_prod_beta)

lemma finalize_log:
  assumes "geometry_file_name_' st \<noteq> []" "stream_good env (geometry_file_name_' st)"
  shows "log_written (finalize env geo st) =
           log_entries st @
           [(STATUS, [Str ''Wrote '', SInt (write_cnt_' st), Str '' events to file:'', Endl,
                      Str (lcio_file_name_' st)])] @
           snd (write_bfield env geo) @
           [(STATUS, [Str ''Wrote GEAR geometry to file:'', Endl, Str (geometry_file_name_' st)])]"
  using assms by (simp add: finalize_def log_written_def Let_def case_prod_beta)

lemma finalize_written:
  assumes "geometry_file_name_' st \<noteq> []" "stream_good env (geometry_file_name_' st)"
  shows "geometry_written (finalize env geo st) (geometry_file_name_' st) =
           gear_document (detector_name_' st) (length (getDetectors geo))
             (fst (write_bfield env geo))
             (fst (write_layers env (detector_names_to_id_' st) (getDetectors geo)))"
  using assms by (simp add: finalize_def geometry_written_def Let_def case_prod_beta)

subsection \<open>The shape of the geometry document\<close>

lemma is_element_write_bfield:
  "is_element t (fst (write_bfield env geo)) = (t = ''BField'')"
  by (simp add: write_bfield_def Let_def)

lemma layers_of_gear_document:
  "\<not> is_element ''detectors'' b \<Longrightarrow>
   layers_of (gear_document dn n b ls) = elements ''layer'' ls"
  by (simp add: layers_of_def gear_document_def elements_def child_def)

lemma bfield_of_gear_document:
  "is_element ''BField'' b \<Longrightarrow> bfield_of (gear_document dn n b ls) = [b]"
  by (simp add: bfield_of_def gear_document_def elements_def)

lemma elements_write_layers_length:
  "length (elements ''layer'' (fst (write_layers env reg ds))) = length ds"
  by (induction ds arbitrary: reg) (simp_all add: elements_def case_prod_beta)

lemma elements_write_layers_nth:
  "i < length ds \<Longrightarrow>
   \<exists>a b. elements ''layer'' (fst (write_layers env reg ds)) ! i =
     Element ''layer'' [] [write_ladder env a (ds ! i), write_sensitive env b (ds ! i)]"
proof (induction ds arbitrary: reg i)
  case Nil
  then show ?case by simp
next
  case (Cons d ds)
  show ?case
  proof (cases i)
    case 0
    then show ?thesis by (simp add: elements_def case_prod_beta) blast
  next
    case (Suc j)
    with Cons.prems have "j < length ds" by simp
    from Cons.IH [OF this] Suc show ?thesis
      by (simp add: elements_def case_prod_beta)
  qed
qed

lemma nth_layer:
  assumes "geometry_file_name_' st \<noteq> []" "stream_good env (geometry_file_name_' st)"
    and "i < length (getDetectors geo)"
  shows "\<exists>a b. layers_of (geometry_written (finalize env geo st) (geometry_file_name_' st)) ! i =
           Element ''layer'' [] [write_ladder env a (getDetectors geo ! i),
                                 write_sensitive env b (getDetectors geo ! i)]"
  using assms
  by (simp add: finalize_written layers_of_gear_document is_element_write_bfield
        elements_write_layers_nth)

lemma length_layers:
  assumes "geometry_file_name_' st \<noteq> []" "stream_good env (geometry_file_name_' st)"
  shows "length (layers_of (geometry_written (finalize env geo st) (geometry_file_name_' st))) =
           length (getDetectors geo)"
  using assms
  by (simp add: finalize_written layers_of_gear_document is_element_write_bfield
        elements_write_layers_length)

lemma ladder_of_layer:
  "ladder_of (Element ''layer'' [] [write_ladder env a d, write_sensitive env b d]) =
     write_ladder env a d"
  by (simp add: ladder_of_def child_def elements_def write_ladder_def write_sensitive_def Let_def)

lemma sensitive_of_layer:
  "sensitive_of (Element ''layer'' [] [write_ladder env a d, write_sensitive env b d]) =
     write_sensitive env b d"
  by (simp add: sensitive_of_def child_def elements_def write_ladder_def write_sensitive_def
        Let_def)

lemma ladder_radLength: "attr (write_ladder env a d) ''radLength'' = Some (Str ''93.65'')"
  by (simp add: attr_def write_ladder_def Let_def)

lemma sensitive_radLength: "attr (write_sensitive env a d) ''radLength'' = Some (Str ''93.65'')"
  by (simp add: attr_def write_sensitive_def Let_def)

lemma ladder_ID: "attr (write_ladder env a d) ''ID'' = Some (UInt a)"
  by (simp add: attr_def write_ladder_def Let_def)

lemma sensitive_ID: "attr (write_sensitive env a d) ''ID'' = Some (UInt a)"
  by (simp add: attr_def write_sensitive_def Let_def)

text \<open>
  The three angles are written in the order of the planes Z-Y, Z-X, X-Y, each negated
  and converted to degrees.
\<close>

lemma ladder_rotations:
  "attr (write_ladder env a d) ''rotationZY'' =
     Some (Dbl (convert env (- fst (getRotationAnglesFromMatrix env (getOrientation d))) ''deg''))"
  "attr (write_ladder env a d) ''rotationZX'' =
     Some (Dbl (convert env (- fst (snd (getRotationAnglesFromMatrix env (getOrientation d))))
                  ''deg''))"
  "attr (write_ladder env a d) ''rotationXY'' =
     Some (Dbl (convert env (- snd (snd (getRotationAnglesFromMatrix env (getOrientation d))))
                  ''deg''))"
  by (simp_all add: attr_def write_ladder_def Let_def)

lemma sensitive_attrs:
  "attr (write_sensitive env a d) ''sizeX'' =
     Some (Dbl (convert env (real (nx (getNPixels (getModel d))) * px (getPixelSize (getModel d)))
                  ''mm''))"
  "attr (write_sensitive env a d) ''sizeY'' =
     Some (Dbl (convert env (real (ny (getNPixels (getModel d))) * py (getPixelSize (getModel d)))
                  ''mm''))"
  "attr (write_sensitive env a d) ''thickness'' =
     Some (Dbl (convert env (vz (getSensorSize (getModel d))) ''mm''))"
  "attr (write_sensitive env a d) ''resolution'' =
     Some (Dbl (convert env (px (getPixelSize (getModel d)) / sqrt 12) ''mm''))"
  "attr (write_sensitive env a d) ''rotation1'' = Some (Str ''1.0'')"
  "attr (write_sensitive env a d) ''rotation2'' = Some (Str ''0.0'')"
  "attr (write_sensitive env a d) ''rotation3'' = Some (Str ''0.0'')"
  "attr (write_sensitive env a d) ''rotation4'' = Some (Str ''1.0'')"
  by (simp_all add: attr_def write_sensitive_def Let_def)

subsection \<open>Facts about the concrete inputs\<close>

lemma ex_initial_name: "geometry_file_name_' ex_initial = []"
  by (simp add: ex_initial_def)

lemma ex_ready_files: "files ex_ready p = None"
  by (simp add: ex_ready_def ex_initial_def)

lemma ex_ready_log: "log_entries ex_ready = []"
  by (simp add: ex_ready_def ex_initial_def)

lemma ex_env_convert: "convert ex_env v u = v"
  by (simp add: ex_env_def)

lemma ex_geo_field:
  "getMagneticFieldType (ex_geo t) = t"
  "getMagneticField (ex_geo t) p = XYZVector 0 0 (4 / 1000)"
  by (simp_all add: ex_geo_def)

lemma ex_model_facts:
  "getModel (ex_detector n z) = ex_model"
  "getNPixels ex_model = PixelCount 100 100"
  "getPixelSize ex_model = XYVector (5 / 100) (5 / 100)"
  "getSensorSize ex_model = XYZVector (52 / 10) (52 / 10) (3 / 10)"
  by (simp_all add: ex_detector_def ex_model_def)

lemma ex_ready_name: "geometry_file_name_' ex_ready = ''geometry.xml''"
  by (simp add: ex_ready_def ex_initial_def)

lemma ex_env_good: "stream_good ex_env p"
  by (simp add: ex_env_def)

lemma ex_env_write: "write_good ex_env p"
  by (simp add: ex_env_def)

lemma ex_ready_writer:
  "writer_' ex_ready = \<lparr>root_file = ''output.root'', registered = [], written = []\<rparr>"
  by (simp add: ex_ready_def ex_initial_def)

lemma ex_geo_detectors:
  "getDetectors (ex_geo t) = [ex_detector ''det0'' 0, ex_detector ''det1'' 50]"
  by (simp add: ex_geo_def)

subsection \<open>Hits in the written event record\<close>

text \<open>
  C1 says that run encodes every hit on a registered detector and appends it to its
  channel's collection in the written record, so that one hit on detector 1 at pixel
  (10, 20) gives a record with one non-empty hit collection. The code does not: with a
  registry that knows \<open>det1\<close> as detector 1 and one configured channel, the event with
  that one hit is written as a single record that holds no collection at all.
\<close>

theorem run_drops_hit:
  "detector_names_to_id_' ex_ready ''det1'' = Some 1
   \<and> collection_names_vector_' ex_ready = [''zsdata'']
   \<and> fetchMultiMessage (ex_event ''det1'') =
       [\<lparr>msg_detector = ''det1'', msg_data = [\<lparr>pixel_x = 10, pixel_y = 20\<rparr>]\<rparr>]
   \<and> records_written (run ex_env ex_ready (ex_event ''det1'')) = [[]]"
  by (simp add: run_result records_written_def ex_env_write fetchMultiMessage_def
        ex_event_def ex_ready_def ex_initial_def)

subsection \<open>The two collection-naming modes\<close>

text \<open>
  C2 says that a configuration with both \<open>output_collection_name\<close> and
  \<open>detector_assignment\<close> is a fatal error at initialisation. The code computes the two
  presence flags and drops them: with both keys present the constructor and initialize
  both return normally.
\<close>

theorem both_modes_accepted:
  "has (ex_config ex_both) ''output_collection_name''
   \<and> has (ex_config ex_both) ''detector_assignment''
   \<and> \<not> isl (PODIOWriterModule (ex_config ex_both) (ex_geo NONE) ex_initial)
   \<and> \<not> isl (then_do (PODIOWriterModule (ex_config ex_both) (ex_geo NONE) ex_initial)
               (initialize ex_env))"
  by (simp add: PODIOWriterModule_def ex_config_def ex_both_def setDefault_def has_def
        get_int_def get_string_def get_bool_def then_do_def initialize_def ex_env_def)

subsection \<open>The radiation length\<close>

text \<open>
  C4 as stated (the radiation-length attribute is 94.65) fails: the ladder of the first
  detector of the example does not carry that value.
\<close>

theorem radLength_94_65_counterexample:
  "attr (ladder_of (layers_of (geometry_written (finalize ex_env (ex_geo NONE) ex_ready)
            ''geometry.xml'') ! 0)) ''radLength'' \<noteq> Some (Str ''94.65'')"
proof -
  have "\<exists>a b. layers_of (geometry_written (finalize ex_env (ex_geo NONE) ex_ready)
            (geometry_file_name_' ex_ready)) ! 0 =
          Element ''layer'' [] [write_ladder ex_env a (getDetectors (ex_geo NONE) ! 0),
                                write_sensitive ex_env b (getDetectors (ex_geo NONE) ! 0)]"
    by (rule nth_layer) (simp_all add: ex_ready_name ex_env_good ex_geo_detectors)
  then show ?thesis
    by (auto simp: ex_ready_name ladder_of_layer ladder_radLength)
qed

text \<open>
  C4, amended: for every detector, the radiation-length attribute of the ladder record
  and of the paired sensitive record is the literal 93.65, whatever the detector is.
\<close>

theorem radLength_constant:
  assumes "geometry_file_name_' st \<noteq> []" and "stream_good env (geometry_file_name_' st)"
    and "i < length (getDetectors geo)"
  shows "attr (ladder_of (layers_of (geometry_written (finalize env geo st)
                 (geometry_file_name_' st)) ! i)) ''radLength'' = Some (Str ''93.65'')
       \<and> attr (sensitive_of (layers_of (geometry_written (finalize env geo st)
                 (geometry_file_name_' st)) ! i)) ''radLength'' = Some (Str ''93.65'')"
proof -
  from nth_layer [OF assms] obtain a b where
    "layers_of (geometry_written (finalize env geo st) (geometry_file_name_' st)) ! i =
       Element ''layer'' [] [write_ladder env a (getDetectors geo ! i),
                             write_sensitive env b (getDetectors geo ! i)]"
    by blast
  then show ?thesis
    by (simp add: ladder_of_layer sensitive_of_layer ladder_radLength sensitive_radLength)
qed

text \<open>The amended C4 at the second detector of the example.\<close>

theorem radLength_constant_witness:
  "geometry_file_name_' ex_ready \<noteq> [] \<and> stream_good ex_env (geometry_file_name_' ex_ready)
   \<and> (1::nat) < length (getDetectors (ex_geo NONE))
   \<and> attr (ladder_of (layers_of (geometry_written (finalize ex_env (ex_geo NONE) ex_ready)
              ''geometry.xml'') ! 1)) ''radLength'' = Some (Str ''93.65'')
   \<and> attr (sensitive_of (layers_of (geometry_written (finalize ex_env (ex_geo NONE) ex_ready)
              ''geometry.xml'') ! 1)) ''radLength'' = Some (Str ''93.65'')"
  using radLength_constant [of ex_ready ex_env 1 "ex_geo NONE"]
  by (simp add: ex_ready_name ex_env_good ex_geo_detectors)

subsection \<open>Hits on a detector the registry does not know\<close>

text \<open>
  C8 as stated (run signals a fatal error for a hit on a detector absent from the
  registry) fails: the registry of the example does not know \<open>ghost\<close>, and run returns
  normally on an event with a hit on it.
\<close>

theorem unknown_detector_counterexample:
  "detector_names_to_id_' ex_ready ''ghost'' = None
   \<and> msg_detector (hd (fetchMultiMessage (ex_event ''ghost''))) = ''ghost''
   \<and> \<not> isl (run ex_env ex_ready (ex_event ''ghost''))"
  by (simp add: run_result ex_env_write fetchMultiMessage_def ex_event_def ex_ready_def
        ex_initial_def)

text \<open>
  C8, amended: for every event batch containing a hit that references a detector absent
  from the registry, run signals no configuration-inconsistency error. It fails only
  when the event file does not accept the record, with the error of the writer;
  otherwise it returns normally, having appended one record to the event file and left
  the registry as it was.
\<close>

theorem unknown_detector_no_error:
  assumes "m \<in> set (fetchMultiMessage event)" and "msg_data m \<noteq> []"
    and "detector_names_to_id_' st (msg_detector m) = None"
  shows "(write_good env (root_file (writer_' st)) \<longrightarrow>
            (\<exists>st'. run env st event = Inr st'
               \<and> length (written (writer_' st')) = Suc (length (written (writer_' st)))
               \<and> detector_names_to_id_' st' = detector_names_to_id_' st))
       \<and> (\<not> write_good env (root_file (writer_' st)) \<longrightarrow>
            run env st event = Inl (WriteError (root_file (writer_' st))))"
  by (simp add: run_result)

text \<open>
  The amended C8 on the event with a hit on \<open>ghost\<close>, with an event file that accepts
  the record and with one that does not.
\<close>

theorem unknown_detector_no_error_witness:
  "\<lparr>msg_detector = ''ghost'', msg_data = [\<lparr>pixel_x = 10, pixel_y = 20\<rparr>]\<rparr>
     \<in> set (fetchMultiMessage (ex_event ''ghost''))
   \<and> detector_names_to_id_' ex_ready ''ghost'' = None
   \<and> write_good ex_env (root_file (writer_' ex_ready))
   \<and> (\<exists>st'. run ex_env ex_ready (ex_event ''ghost'') = Inr st'
          \<and> length (written (writer_' st')) = 1
          \<and> detector_names_to_id_' st' = detector_names_to_id_' ex_ready)
   \<and> \<not> write_good (ex_env\<lparr>write_good := (\<lambda>p. False)\<rparr>) (root_file (writer_' ex_ready))
   \<and> run (ex_env\<lparr>write_good := (\<lambda>p. False)\<rparr>) ex_ready (ex_event ''ghost'') =
       Inl (WriteError ''output.root'')"
proof -
  have batch:
    "\<lparr>msg_detector = ''ghost'', msg_data = [\<lparr>pixel_x = 10, pixel_y = 20\<rparr>]\<rparr>
       \<in> set (fetchMultiMessage (ex_event ''ghost''))"
    by (simp add: fetchMultiMessage_def ex_event_def)
  have absent: "detector_names_to_id_' ex_ready ''ghost'' = None"
    by (simp add: ex_ready_def ex_initial_def)
  from unknown_detector_no_error
         [of "\<lparr>msg_detector = ''ghost'', msg_data = [\<lparr>pixel_x = 10, pixel_y = 20\<rparr>]\<rparr>"
             "ex_event ''ghost''" ex_ready ex_env]
       unknown_detector_no_error
         [of "\<lparr>msg_detector = ''ghost'', msg_data = [\<lparr>pixel_x = 10, pixel_y = 20\<rparr>]\<rparr>"
             "ex_event ''ghost''" ex_ready "ex_env\<lparr>write_good := (\<lambda>p. False)\<rparr>"]
       batch absent
  show ?thesis
    by (simp add: ex_env_write ex_ready_writer)
qed

subsection \<open>The Monte-Carlo truth collections\<close>

text \<open>
  C9 says that with the Monte-Carlo flag set every written record contains four more
  collections (cluster, raw cluster, hit, track). The code reads the flag and declares
  four null pointers, but allocates nothing: with the flag set, the record written for an
  event holds no collection.
\<close>

theorem mc_truth_not_written:
  "dump_mc_truth_' ex_ready
   \<and> records_written (run ex_env ex_ready \<lparr>number = 7, messages = []\<rparr>) = [[]]"
  by (simp add: run_result records_written_def ex_env_write ex_ready_def ex_initial_def)

subsection \<open>The sensitive record\<close>

text \<open>
  C5: for every detector, the sensitive record reports sizeX and sizeY as pixel count
  times pitch, its thickness as the z-extent of the sensor, its resolution as the pitch in
  x divided by the square root of 12 (all converted to millimetres), and the rotation
  block 1, 0, 0, 1.
\<close>

theorem sensitive_extents:
  assumes "geometry_file_name_' st \<noteq> []" and "stream_good env (geometry_file_name_' st)"
    and "i < length (getDetectors geo)"
  shows "let sensitive = sensitive_of (layers_of (geometry_written (finalize env geo st)
                           (geometry_file_name_' st)) ! i);
             model = getModel (getDetectors geo ! i);
             npixels = getNPixels model;
             pitch = getPixelSize model
         in attr sensitive ''sizeX'' = Some (Dbl (convert env (real (nx npixels) * px pitch) ''mm''))
          \<and> attr sensitive ''sizeY'' = Some (Dbl (convert env (real (ny npixels) * py pitch) ''mm''))
          \<and> attr sensitive ''thickness'' = Some (Dbl (convert env (vz (getSensorSize model)) ''mm''))
          \<and> attr sensitive ''resolution'' = Some (Dbl (convert env (px pitch / sqrt 12) ''mm''))
          \<and> attr sensitive ''rotation1'' = Some (Str ''1.0'')
          \<and> attr sensitive ''rotation2'' = Some (Str ''0.0'')
          \<and> attr sensitive ''rotation3'' = Some (Str ''0.0'')
          \<and> attr sensitive ''rotation4'' = Some (Str ''1.0'')"
proof -
  from nth_layer [OF assms] obtain a b where
    "layers_of (geometry_written (finalize env geo st) (geometry_file_name_' st)) ! i =
       Element ''layer'' [] [write_ladder env a (getDetectors geo ! i),
                             write_sensitive env b (getDetectors geo ! i)]"
    by blast
  then show ?thesis
    by (simp add: Let_def sensitive_of_layer sensitive_attrs)
qed

text \<open>
  C5 at the second detector of the example, whose sensor is 5.2 mm wide: the extent
  reported is 100 times 0.05 mm, that is 5 mm.
\<close>

theorem sensitive_extents_witness:
  "geometry_file_name_' ex_ready \<noteq> [] \<and> stream_good ex_env (geometry_file_name_' ex_ready)
   \<and> (1::nat) < length (getDetectors (ex_geo NONE))
   \<and> vx (getSensorSize (getModel (getDetectors (ex_geo NONE) ! 1))) = 52 / 10
   \<and> attr (sensitive_of (layers_of (geometry_written (finalize ex_env (ex_geo NONE) ex_ready)
              ''geometry.xml'') ! 1)) ''sizeX'' = Some (Dbl 5)
   \<and> attr (sensitive_of (layers_of (geometry_written (finalize ex_env (ex_geo NONE) ex_ready)
              ''geometry.xml'') ! 1)) ''sizeY'' = Some (Dbl 5)
   \<and> attr (sensitive_of (layers_of (geometry_written (finalize ex_env (ex_geo NONE) ex_ready)
              ''geometry.xml'') ! 1)) ''thickness'' = Some (Dbl (3 / 10))
   \<and> attr (sensitive_of (layers_of (geometry_written (finalize ex_env (ex_geo NONE) ex_ready)
              ''geometry.xml'') ! 1)) ''resolution'' = Some (Dbl (5 / 100 / sqrt 12))
   \<and> attr (sensitive_of (layers_of (geometry_written (finalize ex_env (ex_geo NONE) ex_ready)
              ''geometry.xml'') ! 1)) ''rotation1'' = Some (Str ''1.0'')
   \<and> attr (sensitive_of (layers_of (geometry_written (finalize ex_env (ex_geo NONE) ex_ready)
              ''geometry.xml'') ! 1)) ''rotation4'' = Some (Str ''1.0'')"
  using sensitive_extents [of ex_ready ex_env 1 "ex_geo NONE"]
  by (simp add: ex_ready_name ex_env_good ex_geo_detectors ex_model_facts ex_env_convert Let_def)

subsection \<open>The magnetic field element\<close>

text \<open>
  C6: when a geometry document is written, finalize does not fail, and the field
  element of the document is: for a constant field, the three components of the field at
  the origin converted to tesla; for no field, the literal zero vector; for any other
  field type, the literal zero vector again, with a warning logged during the call.
\<close>

theorem bfield_element:
  assumes "geometry_file_name_' st \<noteq> []" and "stream_good env (geometry_file_name_' st)"
  shows "\<not> isl (finalize env geo st)
       \<and> (getMagneticFieldType geo = CONSTANT \<longrightarrow>
            bfield_of (geometry_written (finalize env geo st) (geometry_file_name_' st)) =
              [Element ''BField''
                 [(''type'', Str ''ConstantBField''),
                  (''x'', Dbl (convert env (vx (getMagneticField geo (XYZVector 0 0 0))) ''T'')),
                  (''y'', Dbl (convert env (vy (getMagneticField geo (XYZVector 0 0 0))) ''T'')),
                  (''z'', Dbl (convert env (vz (getMagneticField geo (XYZVector 0 0 0))) ''T''))]
                 []])
       \<and> (getMagneticFieldType geo = NONE \<longrightarrow>
            bfield_of (geometry_written (finalize env geo st) (geometry_file_name_' st)) =
              [Element ''BField''
                 [(''type'', Str ''ConstantBField''),
                  (''x'', Str ''0.0''), (''y'', Str ''0.0''), (''z'', Str ''0.0'')] []])
       \<and> (getMagneticFieldType geo \<noteq> CONSTANT \<and> getMagneticFieldType geo \<noteq> NONE \<longrightarrow>
            bfield_of (geometry_written (finalize env geo st) (geometry_file_name_' st)) =
              [Element ''BField''
                 [(''type'', Str ''ConstantBField''),
                  (''x'', Str ''0.0''), (''y'', Str ''0.0''), (''z'', Str ''0.0'')] []]
            \<and> (WARNING,
                [Str ''Field type not handled by GEAR geometry. Writing null magnetic field instead.''])
                \<in> set (drop (length (log_entries st)) (log_written (finalize env geo st))))"
proof -
  have doc: "bfield_of (geometry_written (finalize env geo st) (geometry_file_name_' st)) =
               [fst (write_bfield env geo)]"
    using assms by (simp add: finalize_written bfield_of_gear_document is_element_write_bfield)
  have lg: "drop (length (log_entries st)) (log_written (finalize env geo st)) =
              (STATUS, [Str ''Wrote '', SInt (write_cnt_' st), Str '' events to file:'', Endl,
                      Str (lcio_file_name_' st)]) #
              snd (write_bfield env geo) @
              [(STATUS, [Str ''Wrote GEAR geometry to file:'', Endl,
                         Str (geometry_file_name_' st)])]"
    using assms by (simp add: finalize_log)
  show ?thesis
    unfolding doc lg using finalize_ok [OF assms, of geo]
    by (simp add: write_bfield_def Let_def)
qed

text \<open>
  C6 on the example with a constant field of 0.004 along z, with no field, and with a
  custom field.
\<close>

theorem bfield_element_witness:
  "geometry_file_name_' ex_ready \<noteq> [] \<and> stream_good ex_env (geometry_file_name_' ex_ready)
   \<and> bfield_of (geometry_written (finalize ex_env (ex_geo CONSTANT) ex_ready) ''geometry.xml'') =
       [Element ''BField''
          [(''type'', Str ''ConstantBField''),
           (''x'', Dbl 0), (''y'', Dbl 0), (''z'', Dbl (4 / 1000))] []]
   \<and> bfield_of (geometry_written (finalize ex_env (ex_geo NONE) ex_ready) ''geometry.xml'') =
       [Element ''BField''
          [(''type'', Str ''ConstantBField''),
           (''x'', Str ''0.0''), (''y'', Str ''0.0''), (''z'', Str ''0.0'')] []]
   \<and> getMagneticFieldType (ex_geo CUSTOM) \<noteq> CONSTANT
   \<and> getMagneticFieldType (ex_geo CUSTOM) \<noteq> NONE
   \<and> bfield_of (geometry_written (finalize ex_env (ex_geo CUSTOM) ex_ready) ''geometry.xml'') =
       [Element ''BField''
          [(''type'', Str ''ConstantBField''),
           (''x'', Str ''0.0''), (''y'', Str ''0.0''), (''z'', Str ''0.0'')] []]
   \<and> (WARNING,
       [Str ''Field type not handled by GEAR geometry. Writing null magnetic field instead.''])
       \<in> set (log_written (finalize ex_env (ex_geo CUSTOM) ex_ready))
   \<and> \<not> isl (finalize ex_env (ex_geo CUSTOM) ex_ready)"
  using bfield_element [of ex_ready ex_env "ex_geo CONSTANT"]
    bfield_element [of ex_ready ex_env "ex_geo NONE"]
    bfield_element [of ex_ready ex_env "ex_geo CUSTOM"]
  by (simp add: ex_ready_name ex_env_good ex_geo_field ex_env_convert ex_ready_log)

subsection \<open>An empty geometry file name\<close>

text \<open>
  C10: with an empty geometry file name finalize returns normally and leaves every file
  as it was. Hence finalize fails only when the name is not empty (and then with the
  error of the stream that is not good), and it changes a file only when the name is not
  empty.
\<close>

theorem finalize_without_geometry_file:
  "(geometry_file_name_' st = [] \<longrightarrow>
      (\<exists>st'. finalize env geo st = Inr st' \<and> files st' = files st))
   \<and> (isl (finalize env geo st) \<longrightarrow>
        geometry_file_name_' st \<noteq> []
        \<and> \<not> stream_good env (geometry_file_name_' st)
        \<and> finalize env geo st = Inl (ModuleError ''Cannot write to GEAR geometry file''))
   \<and> ((\<exists>st' p. finalize env geo st = Inr st' \<and> files st' p \<noteq> files st p) \<longrightarrow>
        geometry_file_name_' st \<noteq> [])"
  by (auto simp: finalize_def Let_def case_prod_beta split: if_splits)

text \<open>
  C10 on a module with an empty name, on one whose stream is not good, and on one that
  writes its document.
\<close>

theorem finalize_without_geometry_file_witness:
  "geometry_file_name_' ex_initial = []
   \<and> (\<exists>st'. finalize ex_env (ex_geo NONE) ex_initial = Inr st' \<and> files st' = files ex_initial)
   \<and> isl (finalize (ex_env\<lparr>stream_good := (\<lambda>p. False)\<rparr>) (ex_geo NONE) ex_ready)
   \<and> geometry_file_name_' ex_ready \<noteq> []
   \<and> (\<exists>st' p. finalize ex_env (ex_geo NONE) ex_ready = Inr st' \<and> files st' p \<noteq> files ex_ready p)"
proof -
  have bad: "isl (finalize (ex_env\<lparr>stream_good := (\<lambda>p. False)\<rparr>) (ex_geo NONE) ex_ready)"
    by (simp add: finalize_def ex_ready_name Let_def)
  have "files st' ''geometry.xml'' \<noteq> files ex_ready ''geometry.xml''"
    if "finalize ex_env (ex_geo NONE) ex_ready = Inr st'" for st'
    using that
    by (auto simp: finalize_def ex_ready_name ex_env_good ex_ready_files Let_def case_prod_beta)
  moreover have "\<exists>st'. finalize ex_env (ex_geo NONE) ex_ready = Inr st'"
    by (simp add: finalize_def ex_ready_name ex_env_good Let_def case_prod_beta)
  ultimately have changed:
    "\<exists>st' p. finalize ex_env (ex_geo NONE) ex_ready = Inr st' \<and> files st' p \<noteq> files ex_ready p"
    by blast
  from finalize_without_geometry_file [of ex_initial ex_env "ex_geo NONE"]
    finalize_without_geometry_file [of ex_ready "ex_env\<lparr>stream_good := (\<lambda>p. False)\<rparr>"
      "ex_geo NONE"]
    finalize_without_geometry_file [of ex_ready ex_env "ex_geo NONE"]
    bad changed
  show ?thesis
    by (simp add: ex_initial_name)
qed

subsection \<open>The detector identifiers\<close>

text \<open>
  C3 says that the registry gives N detectors N distinct identifiers, assigned at
  initialisation. The code assigns none: the constructor fetches the detectors and ends,
  and the subscript in finalize stores 0 for every name it does not find. A module
  constructed and initialised on the two detectors of the example writes identifier 0 in
  the ladder and in the sensitive record of both.
\<close>

theorem both_detectors_get_id_0:
  "map (\<lambda>layer. (attr (ladder_of layer) ''ID'', attr (sensitive_of layer) ''ID''))
     (layers_of (geometry_written
        (then_do (then_do (PODIOWriterModule (ex_config []) (ex_geo NONE) ex_initial)
                    (initialize ex_env))
           (finalize ex_env (ex_geo NONE)))
        ''geometry.xml''))
   = [(Some (UInt 0), Some (UInt 0)), (Some (UInt 0), Some (UInt 0))]"
proof -
  have "\<exists>st. then_do (PODIOWriterModule (ex_config []) (ex_geo NONE) ex_initial) (initialize ex_env)
           = Inr st \<and> geometry_file_name_' st = ''geometry.xml''
             \<and> detector_names_to_id_' st = Map.empty"
    by (simp add: PODIOWriterModule_def ex_config_def setDefault_def has_def
        get_int_def get_string_def get_bool_def then_do_def initialize_def ex_env_def ex_initial_def)
  then obtain st where st:
    "then_do (PODIOWriterModule (ex_config []) (ex_geo NONE) ex_initial) (initialize ex_env) = Inr st"
    "geometry_file_name_' st = ''geometry.xml''" "detector_names_to_id_' st = Map.empty"
    by blast
  have "geometry_written (finalize ex_env (ex_geo NONE) st) (geometry_file_name_' st) =
           gear_document (detector_name_' st) (length (getDetectors (ex_geo NONE)))
             (fst (write_bfield ex_env (ex_geo NONE)))
             (fst (write_layers ex_env (detector_names_to_id_' st) (getDetectors (ex_geo NONE))))"
    by (rule finalize_written) (simp_all add: st ex_env_good)
  then have "layers_of (geometry_written (finalize ex_env (ex_geo NONE) st) ''geometry.xml'') =
      elements ''layer'' (fst (write_layers ex_env Map.empty (getDetectors (ex_geo NONE))))"
    by (simp add: st layers_of_gear_document is_element_write_bfield)
  also have "\<dots> = [Element ''layer'' []
                     [write_ladder ex_env 0 (ex_detector ''det0'' 0),
                      write_sensitive ex_env 0 (ex_detector ''det0'' 0)],
                   Element ''layer'' []
                     [write_ladder ex_env 0 (ex_detector ''det1'' 50),
                      write_sensitive ex_env 0 (ex_detector ''det1'' 50)]]"
    by (simp add: ex_geo_detectors elements_def registry_index_def ex_detector_def)
  finally have layers:
    "layers_of (geometry_written (finalize ex_env (ex_geo NONE) st) ''geometry.xml'') =
       [Element ''layer'' []
          [write_ladder ex_env 0 (ex_detector ''det0'' 0),
           write_sensitive ex_env 0 (ex_detector ''det0'' 0)],
        Element ''layer'' []
          [write_ladder ex_env 0 (ex_detector ''det1'' 50),
           write_sensitive ex_env 0 (ex_detector ''det1'' 50)]]" .
  have "then_do (then_do (PODIOWriterModule (ex_config []) (ex_geo NONE) ex_initial)
                    (initialize ex_env))
           (finalize ex_env (ex_geo NONE)) = finalize ex_env (ex_geo NONE) st"
    unfolding st(1) by (simp add: then_do_def)
  then show ?thesis
    by (simp add: layers ladder_of_layer sensitive_of_layer ladder_ID sensitive_ID)
qed

end
